theory Spec2Isabelle
  imports Complex_Main "HOL-Library.Product_Lexorder"
begin

section \<open>Python values and errors\<close>

text \<open>
  The module is \<^verbatim>\<open>sciencebeam_gym/trainer/models/pix2pix/pix2pix_model.py\<close>.
  Exceptions are values: a function that can raise returns \<open>py_error + 'a\<close>, with
  \<open>Inl\<close> carrying the exception class.
\<close>

datatype py_error = TypeError | IndexError | KeyError | ValueError

text \<open>
  The values \<^verbatim>\<open>format_metric_values\<close> can be handed: \<^verbatim>\<open>None\<close>, a float (its
  finite value, a rational), a string, a list, a tuple, a dict (its items, one per key).
\<close>

datatype pyval =
    PyNone
  | PyFloat rat
  | PyStr string
  | PyList "pyval list"
  | PyTuple "pyval list"
  | PyDict "(pyval \<times> pyval) list"

section \<open>Decimal rendering\<close>

definition digit_char :: "nat \<Rightarrow> char" where
  "digit_char d = ''0123456789'' ! (d mod 10)"

text \<open>\<^verbatim>\<open>str(n)\<close> for a non-negative integer: its decimal digits, most significant first.\<close>

function show_nat :: "nat \<Rightarrow> string" where
  "show_nat n = (if n < 10 then [digit_char n] else show_nat (n div 10) @ [digit_char n])"
  by pat_completeness auto
termination
  by (relation "measure id") auto

declare show_nat.simps [simp del]

text \<open>
  Rounding to the nearest integer, ties to the even neighbour: the rounding of the
  \<^verbatim>\<open>%f\<close> conversion, which renders the exact value of the float.
\<close>

definition round_half_even :: "rat \<Rightarrow> int" where
  "round_half_even q =
     (let f = \<lfloor>q\<rfloor>; d = q - of_int f
      in if d < 1 / 2 then f
         else if 1 / 2 < d then f + 1
         else if even f then f else f + 1)"

text \<open>
  \<^verbatim>\<open>'%.3f' % q\<close> for a float \<open>q\<close>: sign, integer part, a point, three decimals.
\<close>

definition format_3f :: "rat \<Rightarrow> string" where
  "format_3f q =
     (let n = nat (round_half_even (\<bar>q\<bar> * 1000))
      in (if q < 0 then ''-'' else '''')
         @ show_nat (n div 1000) @ ''.''
         @ [digit_char (n div 100), digit_char (n div 10), digit_char n])"

section \<open>Model.format\_metric\_values\<close>

text \<open>
  \<^verbatim>\<open>metric_values[k]\<close> for the literal indices 0 and 1. \<^verbatim>\<open>None\<close> and a float
  are not subscriptable (TypeError); a sequence raises IndexError past its end; a
  dict looks the key up (the float \<open>k\<close> is the same key as the integer \<open>k\<close>) and
  raises KeyError when it is absent.
\<close>

fun py_getitem :: "pyval \<Rightarrow> nat \<Rightarrow> py_error + pyval" where
  "py_getitem PyNone k = Inl TypeError"
| "py_getitem (PyFloat q) k = Inl TypeError"
| "py_getitem (PyStr s) k = (if k < length s then Inr (PyStr [s ! k]) else Inl IndexError)"
| "py_getitem (PyList xs) k = (if k < length xs then Inr (xs ! k) else Inl IndexError)"
| "py_getitem (PyTuple xs) k = (if k < length xs then Inr (xs ! k) else Inl IndexError)"
| "py_getitem (PyDict kvs) k =
     (case map_of kvs (PyFloat (of_nat k)) of None \<Rightarrow> Inl KeyError | Some v \<Rightarrow> Inr v)"

text \<open>
  \<^verbatim>\<open>'%.3f' % x\<close>. A tuple on the right is the argument list, so a one-element
  tuple holding a float formats it; every other operand that is not a float is a
  TypeError.
\<close>

fun py_format_3f :: "pyval \<Rightarrow> py_error + string" where
  "py_format_3f (PyFloat q) = Inr (format_3f q)"
| "py_format_3f (PyTuple [PyFloat q]) = Inr (format_3f q)"
| "py_format_3f v = Inl TypeError"

definition format_field :: "pyval \<Rightarrow> nat \<Rightarrow> py_error + string" where
  "format_field metric_values k =
     (case py_getitem metric_values k of
        Inl e \<Rightarrow> Inl e
      | Inr v \<Rightarrow> py_format_3f v)"

text \<open>
  The body of the \<^verbatim>\<open>try\<close>: two assignments in sequence. The result is the
  exception that left the block, if any, and the two variables as they stand then.
\<close>

definition format_try_block ::
  "pyval \<Rightarrow> string \<times> string \<Rightarrow> py_error option \<times> string \<times> string" where
  "format_try_block metric_values vars =
     (case vars of (loss_str, accuracy_str) \<Rightarrow>
        (case format_field metric_values 0 of
           Inl e \<Rightarrow> (Some e, loss_str, accuracy_str)
         | Inr l \<Rightarrow>
             (case format_field metric_values 1 of
                Inl e \<Rightarrow> (Some e, l, accuracy_str)
              | Inr a \<Rightarrow> (None, l, a))))"

text \<open>
  \<^verbatim>\<open>except (TypeError, IndexError): pass\<close> swallows those two classes; any other
  exception leaves the function.
\<close>

definition format_metric_values :: "pyval \<Rightarrow> py_error + string" where
  "format_metric_values metric_values =
     (case format_try_block metric_values (''N/A'', ''N/A'') of
        (exc, loss_str, accuracy_str) \<Rightarrow>
          (case exc of
             None \<Rightarrow> Inr (loss_str @ '', '' @ accuracy_str)
           | Some e \<Rightarrow>
               if e = TypeError \<or> e = IndexError
               then Inr (loss_str @ '', '' @ accuracy_str)
               else Inl e))"


section \<open>GraphMode and the example reader\<close>

text \<open>
  \<^verbatim>\<open>class GraphMode\<close> holds three integer constants; \<^verbatim>\<open>graph_mode\<close> is compared
  with them by \<^verbatim>\<open>==\<close>, so it is an integer here.
\<close>

definition TRAIN :: int where "TRAIN = 1"
definition EVALUATE :: int where "EVALUATE = 2"
definition PREDICT :: int where "PREDICT = 3"

text \<open>
  Where \<^verbatim>\<open>tensors.examples\<close> comes from (lines 215 to 226 of \<^verbatim>\<open>build_graph\<close>): a
  call of \<^verbatim>\<open>read_examples\<close> with its keyword arguments, \<^verbatim>\<open>num_epochs=None\<close> being
  \<open>None\<close>, or the placeholder named \<^verbatim>\<open>input\<close>.
\<close>

datatype examples_source =
    ReadExamples (paths: "string list") (shuffle: bool) (num_epochs: "nat option")
  | Placeholder

definition build_graph_examples :: "string list \<Rightarrow> int \<Rightarrow> examples_source" where
  "build_graph_examples data_paths graph_mode =
     (let is_training = (graph_mode = TRAIN \<or> graph_mode = EVALUATE)
      in if data_paths \<noteq> []
         then ReadExamples data_paths (graph_mode = TRAIN) (if is_training then None else Some 2)
         else Placeholder)"

section \<open>Image tensors\<close>

text \<open>
  An RGB image tensor has a last axis of size 3: a pixel is a triple. An image of shape
  (H, W, 3) is a list of H rows of W pixels, a batch of shape (B, H, W, 3) a list of
  images. A tensor of per-class masks has a last axis of any size C: its pixels are
  lists of C channels. \<^verbatim>\<open>uint8\<close> channels are integers in 0..255, \<^verbatim>\<open>float32\<close>
  channels are rationals: float arithmetic is taken as exact.
\<close>

type_synonym rgb = "int \<times> int \<times> int"
type_synonym frgb = "rat \<times> rat \<times> rat"
type_synonym 'a image = "'a list list"
type_synonym 'a batch = "'a list list list"

definition map_image :: "('a \<Rightarrow> 'b) \<Rightarrow> 'a image \<Rightarrow> 'b image" where
  "map_image f img = map (map f) img"

definition map_batch :: "('a \<Rightarrow> 'b) \<Rightarrow> 'a batch \<Rightarrow> 'b batch" where
  "map_batch f t = map (map_image f) t"

text \<open>The shape of the axes before the last: the length of every row of every image.\<close>

definition image_shape :: "'a image \<Rightarrow> nat list" where
  "image_shape img = map length img"

definition batch_shape :: "'a batch \<Rightarrow> nat list list" where
  "batch_shape t = map image_shape t"

subsection \<open>colors\_to\_dimensions\<close>





subsection \<open>batch\_dimensions\_to\_colors\_list\<close>

text \<open>
  \<^verbatim>\<open>image_tensor[:, :, :, i]\<close>: channel \<open>i\<close> of every pixel, a ValueError when the
  last axis has no index \<open>i\<close>.
\<close>

definition channel_slice :: "rat list batch \<Rightarrow> nat \<Rightarrow> py_error + rat batch" where
  "channel_slice image_tensor i =
     (if list_all (list_all (list_all (\<lambda>v. i < length v))) image_tensor
      then Inr (map_batch (\<lambda>v. v ! i) image_tensor)
      else Inl ValueError)"

text \<open>
  \<^verbatim>\<open>tf.expand_dims(channel, axis=-1) * [x / 255.0 for x in single_label_color]\<close>:
  the channel value times each component of the colour over 255.
\<close>

definition weight_color :: "rgb \<Rightarrow> rat \<Rightarrow> frgb" where
  "weight_color single_label_color m =
     (case single_label_color of (r, g, b) \<Rightarrow>
        (m * (of_int r / 255), m * (of_int g / 255), m * (of_int b / 255)))"

fun batch_images_from :: "rat list batch \<Rightarrow> nat \<Rightarrow> rgb list \<Rightarrow> py_error + frgb batch list" where
  "batch_images_from image_tensor i [] = Inr []"
| "batch_images_from image_tensor i (single_label_color # colors) =
     (case channel_slice image_tensor i of
        Inl e \<Rightarrow> Inl e
      | Inr ch \<Rightarrow>
          (case batch_images_from image_tensor (Suc i) colors of
             Inl e \<Rightarrow> Inl e
           | Inr rest \<Rightarrow> Inr (map_batch (weight_color single_label_color) ch # rest)))"

definition batch_dimensions_to_colors_list ::
  "rat list batch \<Rightarrow> rgb list \<Rightarrow> py_error + frgb batch list" where
  "batch_dimensions_to_colors_list image_tensor colors = batch_images_from image_tensor 0 colors"

subsection \<open>convert\_image, replace\_black\_with\_white\_color, combine\_image\<close>

text \<open>
  \<^verbatim>\<open>tf.image.convert_image_dtype(image, dtype=tf.uint8, saturate=True)\<close> of a float:
  scale by 255.5, clamp to the range of \<^verbatim>\<open>uint8\<close>, drop the fraction. A tensor that
  is \<^verbatim>\<open>uint8\<close> already is returned as it is.
\<close>

definition saturate_cast_uint8 :: "rat \<Rightarrow> int" where
  "saturate_cast_uint8 x = (if x \<le> 0 then 0 else if 255 \<le> x then 255 else \<lfloor>x\<rfloor>)"

definition convert_channel :: "rat \<Rightarrow> int" where
  "convert_channel x = saturate_cast_uint8 (x * (255 + 1 / 2))"

definition convert_pixel :: "frgb \<Rightarrow> rgb" where
  "convert_pixel px =
     (case px of (r, g, b) \<Rightarrow> (convert_channel r, convert_channel g, convert_channel b))"

datatype tensor =
    U8 "rgb batch"
  | F32 "frgb batch"
  | U8C "int list batch"
  | F32C "rat list batch"

fun convert_image :: "tensor \<Rightarrow> tensor" where
  "convert_image (U8 t) = U8 t"
| "convert_image (F32 t) = U8 (map_batch convert_pixel t)"
| "convert_image (U8C t) = U8C t"
| "convert_image (F32C t) = U8C (map_batch (map convert_channel) t)"

text \<open>
  \<^verbatim>\<open>replace_black_with_white_color\<close>, pixel by pixel: \<^verbatim>\<open>is_black\<close> is the
  conjunction of the three comparisons with 0, stacked three times, and
  \<^verbatim>\<open>tf.where\<close> picks each channel from \<^verbatim>\<open>255 * tf.ones_like(image_tensor)\<close> or
  from the image.
\<close>

definition replace_black_pixel :: "rgb \<Rightarrow> rgb" where
  "replace_black_pixel px =
     (case px of (r, g, b) \<Rightarrow>
        (let is_black = (r = 0 \<and> g = 0 \<and> b = 0)
         in (if is_black then 255 * 1 else r,
             if is_black then 255 * 1 else g,
             if is_black then 255 * 1 else b)))"

definition replace_black_with_white_color :: "rgb batch \<Rightarrow> rgb batch" where
  "replace_black_with_white_color image_tensor = map_batch replace_black_pixel image_tensor"

text \<open>
  \<^verbatim>\<open>a + b\<close> on two float image tensors of one shape, element by element. Operands
  of different shapes are a ValueError here: broadcasting is not modelled.
\<close>

definition add_pixel :: "frgb \<Rightarrow> frgb \<Rightarrow> frgb" where
  "add_pixel p q =
     (case p of (r, g, b) \<Rightarrow> (case q of (r', g', b') \<Rightarrow> (r + r', g + g', b + b')))"

definition tensor_add :: "frgb batch \<Rightarrow> frgb batch \<Rightarrow> py_error + frgb batch" where
  "tensor_add a b =
     (if batch_shape a = batch_shape b
      then Inr (map2 (map2 (map2 add_pixel)) a b)
      else Inl ValueError)"

text \<open>
  \<^verbatim>\<open>six.moves.reduce(lambda a, b: a + b, batch_images)\<close>: a TypeError on the empty
  list (there is no initial value), else the first image with the others added from
  left to right.
\<close>

fun reduce_add_from :: "frgb batch \<Rightarrow> frgb batch list \<Rightarrow> py_error + frgb batch" where
  "reduce_add_from acc [] = Inr acc"
| "reduce_add_from acc (b # bs) =
     (case tensor_add acc b of Inl e \<Rightarrow> Inl e | Inr acc' \<Rightarrow> reduce_add_from acc' bs)"

definition reduce_add :: "frgb batch list \<Rightarrow> py_error + frgb batch" where
  "reduce_add batch_images =
     (case batch_images of [] \<Rightarrow> Inl TypeError | a # bs \<Rightarrow> reduce_add_from a bs)"

definition combine_image :: "frgb batch list \<Rightarrow> bool \<Rightarrow> py_error + rgb batch" where
  "combine_image batch_images replace_black_with_white =
     (case reduce_add batch_images of
        Inl e \<Rightarrow> Inl e
      | Inr s \<Rightarrow>
          (let combined_image = map_batch convert_pixel s
           in if replace_black_with_white
              then Inr (replace_black_with_white_color combined_image)
              else Inr combined_image))"

section \<open>The visualization assembler\<close>

definition bind_err :: "py_error + 'a \<Rightarrow> ('a \<Rightarrow> py_error + 'b) \<Rightarrow> py_error + 'b" where
  "bind_err r f = (case r of Inl e \<Rightarrow> Inl e | Inr x \<Rightarrow> f x)"

text \<open>
  The fields of \<^verbatim>\<open>GraphReferences\<close> that \<^verbatim>\<open>add_model_summary_images\<close> reads or
  writes, with the types \<^verbatim>\<open>build_graph\<close> gives them: the input image is a float RGB
  batch, the annotation image an RGB batch (\<^verbatim>\<open>uint8\<close>, or float when no colour map is
  configured), the target stack and the prediction float tensors with one channel per
  dimension. \<^verbatim>\<open>summaries\<close> and \<^verbatim>\<open>image_tensors\<close> are \<^verbatim>\<open>None\<close> until a dict is
  assigned. \<open>summary_ops\<close> is the graph's collection of image summaries, which
  \<^verbatim>\<open>tf.summary.image\<close> appends to.
\<close>

record graph_references =
  image_tensor :: "frgb batch"
  annotation_tensor :: tensor
  separate_channel_annotation_tensor :: "rat list batch"
  pred :: "rat list batch"
  summaries :: "(string \<rightharpoonup> tensor) option"
  image_tensors :: "(string \<rightharpoonup> tensor) option"
  summary_ops :: "(string \<times> tensor) list"

text \<open>
  \<^verbatim>\<open>tensors.image_tensors[name] = image\<close> is a TypeError while the field is
  \<^verbatim>\<open>None\<close>.
\<close>

definition add_summary_image ::
  "graph_references \<Rightarrow> string \<Rightarrow> tensor \<Rightarrow> py_error + graph_references" where
  "add_summary_image tensors name img =
     (case image_tensors tensors of
        None \<Rightarrow> Inl TypeError
      | Some d \<Rightarrow>
          Inr (tensors\<lparr>image_tensors := Some (d(name \<mapsto> img)),
                       summary_ops := summary_ops tensors @ [(name, img)]\<rparr>))"

definition add_simple_summary_image ::
  "graph_references \<Rightarrow> string \<Rightarrow> tensor \<Rightarrow> py_error + graph_references" where
  "add_simple_summary_image tensors name t = add_summary_image tensors name (convert_image t)"

text \<open>
  \<^verbatim>\<open>"_{}_{}".format(i, dimension_label if dimension_label else 'unknown_label')\<close>:
  a label that is \<^verbatim>\<open>None\<close> or empty is falsy.
\<close>

definition label_suffix :: "nat \<Rightarrow> string option \<Rightarrow> string" where
  "label_suffix i dimension_label =
     ''_'' @ show_nat i @ ''_'' @
     (case dimension_label of
        None \<Rightarrow> ''unknown_label''
      | Some l \<Rightarrow> if l = [] then ''unknown_label'' else l)"

text \<open>
  The loop over \<^verbatim>\<open>enumerate(zip(batch_images, dimension_labels))\<close>, from index
  \<open>i\<close> on.
\<close>

fun add_label_images ::
  "graph_references \<Rightarrow> string \<Rightarrow> nat \<Rightarrow> (frgb batch \<times> string option) list
   \<Rightarrow> py_error + graph_references" where
  "add_label_images tensors prefix i [] = Inr tensors"
| "add_label_images tensors prefix i ((batch_image, dimension_label) # rest) =
     bind_err
       (add_simple_summary_image tensors (prefix @ label_suffix i dimension_label)
          (F32 batch_image))
       (\<lambda>tensors'. add_label_images tensors' prefix (Suc i) rest)"

text \<open>\<^verbatim>\<open>zip(batch_images, dimension_labels)\<close>: a TypeError when the labels are \<^verbatim>\<open>None\<close>.\<close>

definition zip_labels ::
  "frgb batch list \<Rightarrow> string option list option
   \<Rightarrow> py_error + (frgb batch \<times> string option) list" where
  "zip_labels batch_images dimension_labels =
     (case dimension_labels of
        None \<Rightarrow> Inl TypeError
      | Some ls \<Rightarrow> Inr (zip batch_images ls))"

text \<open>\<^verbatim>\<open>tensors.summaries['output_image'] = image\<close>.\<close>

definition set_output_image :: "graph_references \<Rightarrow> tensor \<Rightarrow> py_error + graph_references" where
  "set_output_image tensors img =
     (case summaries tensors of
        None \<Rightarrow> Inl TypeError
      | Some d \<Rightarrow> Inr (tensors\<lparr>summaries := Some (d(''output_image'' \<mapsto> img))\<rparr>))"

text \<open>\<^verbatim>\<open>tensors.image_tensors['output']\<close>: a KeyError when the name is absent.\<close>

definition get_image_tensor :: "graph_references \<Rightarrow> string \<Rightarrow> py_error + tensor" where
  "get_image_tensor tensors name =
     (case image_tensors tensors of
        None \<Rightarrow> Inl TypeError
      | Some d \<Rightarrow> (case d name of None \<Rightarrow> Inl KeyError | Some t \<Rightarrow> Inr t))"

text \<open>
  The branch taken when \<^verbatim>\<open>dimension_colors\<close> is truthy. Both calls of
  \<^verbatim>\<open>combine_image\<close> pass \<^verbatim>\<open>batch_images\<close> alone, so
  \<^verbatim>\<open>replace_black_with_white\<close> has its default, \<^verbatim>\<open>False\<close>.
\<close>

definition add_dimension_summary_images ::
  "graph_references \<Rightarrow> rgb list \<Rightarrow> string option list option
   \<Rightarrow> py_error + graph_references" where
  "add_dimension_summary_images tensors dimension_colors dimension_labels =
     bind_err
       (batch_dimensions_to_colors_list
          (separate_channel_annotation_tensor tensors) dimension_colors)
       (\<lambda>batch_images.
     bind_err (zip_labels batch_images dimension_labels) (\<lambda>labelled.
     bind_err (add_label_images tensors ''targets'' 0 labelled) (\<lambda>tensors.
     bind_err (combine_image batch_images False) (\<lambda>combined_image.
     bind_err (add_summary_image tensors ''targets_combined'' (U8 combined_image)) (\<lambda>tensors.
     bind_err (batch_dimensions_to_colors_list (pred tensors) dimension_colors)
       (\<lambda>batch_images.
     bind_err (zip_labels batch_images dimension_labels) (\<lambda>labelled.
     bind_err (add_label_images tensors ''outputs'' 0 labelled) (\<lambda>tensors.
     bind_err (combine_image batch_images False) (\<lambda>combined_image.
     bind_err (set_output_image tensors (U8 combined_image)) (\<lambda>tensors.
       add_summary_image tensors ''outputs_combined'' (U8 combined_image)))))))))))"

text \<open>
  \<^verbatim>\<open>add_model_summary_images\<close>. \<^verbatim>\<open>if dimension_colors:\<close> is false for \<^verbatim>\<open>None\<close>
  and for the empty list.
\<close>

definition add_model_summary_images ::
  "graph_references \<Rightarrow> rgb list option \<Rightarrow> string option list option
   \<Rightarrow> py_error + graph_references" where
  "add_model_summary_images tensors dimension_colors dimension_labels =
     bind_err
       (add_simple_summary_image (tensors\<lparr>summaries := Some Map.empty\<rparr>) ''input''
          (F32 (image_tensor tensors)))
       (\<lambda>tensors.
     bind_err (add_simple_summary_image tensors ''target'' (annotation_tensor tensors))
       (\<lambda>tensors.
       (case dimension_colors of
          Some (c # cs) \<Rightarrow> add_dimension_summary_images tensors (c # cs) dimension_labels
        | _ \<Rightarrow>
            bind_err (add_simple_summary_image tensors ''output'' (F32C (pred tensors)))
              (\<lambda>tensors.
            bind_err (get_image_tensor tensors ''output'') (\<lambda>output.
              set_output_image tensors output)))))"

section \<open>The schema of a serialized example\<close>

text \<open>
  \<^verbatim>\<open>tf.FixedLenFeature(shape, dtype, default_value)\<close>; every feature of the map is
  of dtype \<^verbatim>\<open>tf.string\<close>. A feature with no default is required.
\<close>

datatype tf_dtype = DT_STRING | DT_FLOAT | DT_INT64

record fixed_len_feature =
  shape :: "nat list"
  dtype :: tf_dtype
  default_value :: "string list option"

definition feature_map :: "(string \<times> fixed_len_feature) list" where
  "feature_map =
     [(''input_uri'', \<lparr>shape = [], dtype = DT_STRING, default_value = Some ['''']\<rparr>),
      (''annotation_uri'', \<lparr>shape = [], dtype = DT_STRING, default_value = Some ['''']\<rparr>),
      (''input_image'', \<lparr>shape = [], dtype = DT_STRING, default_value = None\<rparr>),
      (''annotation_image'', \<lparr>shape = [], dtype = DT_STRING, default_value = None\<rparr>)]"

text \<open>
  A decoded \<^verbatim>\<open>tf.train.Example\<close>: its features by name, each a list of byte
  strings, of floats or of integers, or a feature with no kind set.
\<close>

datatype feature =
    BytesList "string list"
  | FloatList "rat list"
  | Int64List "int list"
  | KindNotSet

type_synonym example = "(string \<times> feature) list"

datatype parse_error =
    RequiredFeatureMissing string
  | DataTypesDontMatch string
  | WrongNumberOfValues string

text \<open>
  One dense feature, as TensorFlow's example parser reads it: a feature that is absent
  (or has no kind set) takes the default, and is an error when there is none; a
  feature of another kind than the dtype, or with a number of values other than the
  product of the shape, is an error.
\<close>

definition feature_matches :: "feature \<Rightarrow> tf_dtype \<Rightarrow> bool" where
  "feature_matches f d =
     (case f of
        BytesList vs \<Rightarrow> d = DT_STRING
      | FloatList vs \<Rightarrow> d = DT_FLOAT
      | Int64List vs \<Rightarrow> d = DT_INT64
      | KindNotSet \<Rightarrow> False)"

definition feature_size :: "feature \<Rightarrow> nat" where
  "feature_size f =
     (case f of
        BytesList vs \<Rightarrow> length vs
      | FloatList vs \<Rightarrow> length vs
      | Int64List vs \<Rightarrow> length vs
      | KindNotSet \<Rightarrow> 0)"

definition parse_dense_feature ::
  "example \<Rightarrow> string \<Rightarrow> fixed_len_feature \<Rightarrow> parse_error + feature" where
  "parse_dense_feature ex key config =
     (let found = (case map_of ex key of Some KindNotSet \<Rightarrow> None | r \<Rightarrow> r)
      in case found of
           None \<Rightarrow>
             (case default_value config of
                None \<Rightarrow> Inl (RequiredFeatureMissing key)
              | Some d \<Rightarrow> Inr (BytesList d))
         | Some f \<Rightarrow>
             if \<not> feature_matches f (dtype config) then Inl (DataTypesDontMatch key)
             else if feature_size f \<noteq> prod_list (shape config)
             then Inl (WrongNumberOfValues key)
             else Inr f)"

text \<open>
  \<^verbatim>\<open>tf.parse_single_example(serialized, features)\<close>: every feature of the map in
  turn; the first error is the result.
\<close>

fun parse_single_example ::
  "example \<Rightarrow> (string \<times> fixed_len_feature) list \<Rightarrow> parse_error + (string \<times> feature) list"
  where
  "parse_single_example ex [] = Inr []"
| "parse_single_example ex ((key, config) # features) =
     (case parse_dense_feature ex key config of
        Inl e \<Rightarrow> Inl e
      | Inr v \<Rightarrow>
          (case parse_single_example ex features of
             Inl e \<Rightarrow> Inl e
           | Inr rest \<Rightarrow> Inr ((key, v) # rest)))"

text \<open>
  Lines 227 to 255 of \<^verbatim>\<open>build_graph\<close>: the example is parsed against
  \<open>feature_map\<close> and the four values are taken out of the result
  (\<^verbatim>\<open>tf.squeeze\<close> of a one-element tensor is its element; a parsed feature of
  this map always holds one byte string). Nothing catches a parse error.
\<close>

record parsed_example =
  input_uri :: string
  annotation_uri :: string
  raw_input_image :: string
  raw_annotation_image :: string

definition squeeze_feature :: "(string \<times> feature) list \<Rightarrow> string \<Rightarrow> string" where
  "squeeze_feature parsed key =
     (case map_of parsed key of Some (BytesList [v]) \<Rightarrow> v | _ \<Rightarrow> [])"

definition build_graph_parse :: "example \<Rightarrow> parse_error + parsed_example" where
  "build_graph_parse ex =
     (case parse_single_example ex feature_map of
        Inl e \<Rightarrow> Inl e
      | Inr parsed \<Rightarrow>
          Inr \<lparr>input_uri = squeeze_feature parsed ''input_uri'',
               annotation_uri = squeeze_feature parsed ''annotation_uri'',
               raw_input_image = squeeze_feature parsed ''input_image'',
               raw_annotation_image = squeeze_feature parsed ''annotation_image''\<rparr>)"

text \<open>
  The schema in the specification's words, to compare the parser with: a required
  field holds exactly one byte string; an optional field is absent (or has no kind
  set) or holds exactly one byte string, and reads as the empty string when absent.
\<close>

definition required_string :: "example \<Rightarrow> string \<Rightarrow> bool" where
  "required_string ex key =
     (case map_of ex key of Some (BytesList [v]) \<Rightarrow> True | _ \<Rightarrow> False)"

definition optional_string :: "example \<Rightarrow> string \<Rightarrow> bool" where
  "optional_string ex key =
     (case map_of ex key of
        None \<Rightarrow> True
      | Some KindNotSet \<Rightarrow> True
      | Some (BytesList [v]) \<Rightarrow> True
      | _ \<Rightarrow> False)"

definition string_or_default :: "example \<Rightarrow> string \<Rightarrow> string" where
  "string_or_default ex key =
     (case map_of ex key of Some (BytesList [v]) \<Rightarrow> v | _ \<Rightarrow> [])"

definition conforms_to_schema :: "example \<Rightarrow> bool" where
  "conforms_to_schema ex =
     (optional_string ex ''input_uri'' \<and> optional_string ex ''annotation_uri''
      \<and> required_string ex ''input_image'' \<and> required_string ex ''annotation_image'')"

section \<open>Model.\_\_init\_\_\<close>

text \<open>
  What the constructor reads from the colour map file through its collaborators: the
  dict \<^verbatim>\<open>parse_color_map_from_configparser\<close> returns, as its items in iteration
  order (one per key), and the items of the section \<^verbatim>\<open>color_labels\<close>, in file order.
\<close>

record color_map_config =
  parsed_color_map :: "(rgb \<times> rgb) list"
  color_labels :: "(string \<times> string) list"

record model =
  image_width :: nat
  image_height :: nat
  color_map :: "(rgb \<times> rgb) list option"
  dimension_colors :: "rgb list option"
  dimension_labels :: "string option list option"

text \<open>
  The dict comprehension \<^verbatim>\<open>{(int(k), int(k), int(k)): v for k, v in items}\<close>: a later
  item replaces an earlier one of the same key, and an exception of \<^verbatim>\<open>int\<close> leaves
  the constructor. \<^verbatim>\<open>int\<close> is a parameter, \<open>to_int\<close>.
\<close>

fun color_label_map_from ::
  "(string \<Rightarrow> py_error + int) \<Rightarrow> (string \<times> string) list \<Rightarrow> (rgb \<rightharpoonup> string)
   \<Rightarrow> py_error + (rgb \<rightharpoonup> string)" where
  "color_label_map_from to_int [] acc = Inr acc"
| "color_label_map_from to_int ((k, v) # items) acc =
     (case to_int k of
        Inl e \<Rightarrow> Inl e
      | Inr n \<Rightarrow> color_label_map_from to_int items (acc((n, n, n) \<mapsto> v)))"

text \<open>\<^verbatim>\<open>[self.color_map[k] for k in sorted_keys]\<close>: a KeyError on a key the dict lacks.\<close>

fun lookup_all :: "('k \<times> 'v) list \<Rightarrow> 'k list \<Rightarrow> py_error + 'v list" where
  "lookup_all d [] = Inr []"
| "lookup_all d (k # ks) =
     (case map_of d k of
        None \<Rightarrow> Inl KeyError
      | Some v \<Rightarrow> (case lookup_all d ks of Inl e \<Rightarrow> Inl e | Inr vs \<Rightarrow> Inr (v # vs)))"

text \<open>
  \<^verbatim>\<open>Model.__init__\<close>; the argument is \<open>None\<close> when \<^verbatim>\<open>args.color_map\<close> is falsy.
  \<^verbatim>\<open>sorted\<close> orders the keys, tuples of integers, lexicographically: the order of
  the product type.
\<close>

definition Model_init ::
  "(string \<Rightarrow> py_error + int) \<Rightarrow> color_map_config option \<Rightarrow> py_error + model" where
  "Model_init to_int config =
     (case config of
        None \<Rightarrow>
          Inr \<lparr>image_width = 256, image_height = 256, color_map = None,
               dimension_colors = None, dimension_labels = None\<rparr>
      | Some color_map_config \<Rightarrow>
          (let cm = parsed_color_map color_map_config in
           bind_err (color_label_map_from to_int (color_labels color_map_config) Map.empty)
             (\<lambda>color_label_map.
               (let sorted_keys = sort (map fst cm) in
                bind_err (lookup_all cm sorted_keys) (\<lambda>colors.
                  Inr \<lparr>image_width = 256, image_height = 256, color_map = Some cm,
                       dimension_colors = Some colors,
                       dimension_labels = Some (map color_label_map sorted_keys)\<rparr>)))))"

text \<open>
  A conversion to pass for \<open>to_int\<close> in a worked example: \<^verbatim>\<open>int(s)\<close> on a
  non-empty string of ASCII decimal digits, the keys the section \<^verbatim>\<open>color_labels\<close>
  is documented to hold. Python's \<^verbatim>\<open>int\<close> accepts more (a sign, surrounding
  blanks); such strings are a ValueError in this one.
\<close>

definition is_digit :: "char \<Rightarrow> bool" where
  "is_digit c = (let n = (of_char c :: nat) in 48 \<le> n \<and> n \<le> 57)"

definition decimal_int :: "string \<Rightarrow> py_error + int" where
  "decimal_int s =
     (if s \<noteq> [] \<and> list_all is_digit s
      then Inr (foldl (\<lambda>a c. 10 * a + int (of_char c - 48)) 0 s)
      else Inl ValueError)"

section \<open>Properties of format\_metric\_values\<close>







text \<open>
  C4. \<^verbatim>\<open>format_metric_values([])\<close> is \<^verbatim>\<open>"N/A, N/A"\<close>,
  \<^verbatim>\<open>format_metric_values([0.1234])\<close> is \<^verbatim>\<open>"0.123, N/A"\<close> and
  \<^verbatim>\<open>format_metric_values([0.5, 0.75])\<close> is \<^verbatim>\<open>"0.500, 0.750"\<close>.
\<close>

theorem format_metric_values_examples:
  "format_metric_values (PyList []) = Inr ''N/A, N/A''
   \<and> format_metric_values (PyList [PyFloat (1234 / 10000)]) = Inr ''0.123, N/A''
   \<and> format_metric_values (PyList [PyFloat (1 / 2), PyFloat (3 / 4)]) = Inr ''0.500, 0.750''"
  by code_simp

section \<open>Properties of the example reader's configuration\<close>

text \<open>
  C1, as the code has it. With non-empty \<^verbatim>\<open>data_paths\<close> the examples are read by
  \<^verbatim>\<open>read_examples\<close>, shuffled exactly when the mode is TRAIN, with no bound on the
  number of passes (\<^verbatim>\<open>num_epochs=None\<close>) when the mode is TRAIN or EVALUATE, and
  bounded to 2 passes for every other mode.
\<close>

theorem build_graph_examples_by_mode:
  assumes "data_paths \<noteq> []"
  shows "build_graph_examples data_paths graph_mode \<noteq> Placeholder
    \<and> paths (build_graph_examples data_paths graph_mode) = data_paths
    \<and> shuffle (build_graph_examples data_paths graph_mode) = (graph_mode = TRAIN)
    \<and> num_epochs (build_graph_examples data_paths graph_mode) =
        (if graph_mode = TRAIN \<or> graph_mode = EVALUATE then None else Some 2)"
  using assms by (simp add: build_graph_examples_def)

theorem build_graph_examples_by_mode_witness:
  "[''examples.tfrecord''] \<noteq> []
   \<and> shuffle (build_graph_examples [''examples.tfrecord''] PREDICT) = False
   \<and> num_epochs (build_graph_examples [''examples.tfrecord''] PREDICT) = Some 2
   \<and> shuffle (build_graph_examples [''examples.tfrecord''] TRAIN) = True
   \<and> num_epochs (build_graph_examples [''examples.tfrecord''] TRAIN) = None"
proof -
  have h: "[''examples.tfrecord''] \<noteq> []" by simp
  show ?thesis
    using build_graph_examples_by_mode [OF h, of PREDICT]
      build_graph_examples_by_mode [OF h, of TRAIN]
    by (simp add: TRAIN_def EVALUATE_def PREDICT_def)
qed

text \<open>
  C1 as stated fails in EVALUATE mode: the reader is unshuffled but is given
  \<^verbatim>\<open>num_epochs=None\<close>, not 2.
\<close>

theorem build_graph_examples_evaluate_unbounded:
  "build_graph_examples [''examples.tfrecord''] EVALUATE
     = ReadExamples [''examples.tfrecord''] False None
   \<and> num_epochs (build_graph_examples [''examples.tfrecord''] EVALUATE) \<noteq> Some 2"
  by (simp add: build_graph_examples_def TRAIN_def EVALUATE_def)

section \<open>Properties of replace\_black\_with\_white\_color\<close>

lemma batch_shape_map_batch: "batch_shape (map_batch f t) = batch_shape t"
  by (simp add: batch_shape_def map_batch_def image_shape_def map_image_def)

lemma nth_map_batch:
  assumes "b < length t" and "i < length (t ! b)" and "j < length (t ! b ! i)"
  shows "map_batch f t ! b ! i ! j = f (t ! b ! i ! j)"
  using assms by (simp add: map_batch_def map_image_def)

lemma replace_black_pixel_other:
  assumes "px \<noteq> (0, 0, 0)"
  shows "replace_black_pixel px = px"
  using assms by (cases px) (auto simp: replace_black_pixel_def)

text \<open>
  C10. \<^verbatim>\<open>replace_black_with_white_color\<close> keeps the shape of the image tensor, and
  every pixel that differs from (0, 0, 0) in some channel is the same in the result.
\<close>

theorem replace_black_with_white_color_frame:
  assumes "b < length img"
    and "i < length (img ! b)"
    and "j < length (img ! b ! i)"
    and "img ! b ! i ! j \<noteq> (0, 0, 0)"
  shows "batch_shape (replace_black_with_white_color img) = batch_shape img
    \<and> replace_black_with_white_color img ! b ! i ! j = img ! b ! i ! j"
  using assms
  by (simp add: replace_black_with_white_color_def batch_shape_map_batch nth_map_batch
      replace_black_pixel_other)

theorem replace_black_with_white_color_frame_witness:
  "replace_black_with_white_color [[[(0, 0, 0), (0, 7, 0)]]] ! 0 ! 0 ! 1 = (0, 7, 0)
   \<and> replace_black_with_white_color [[[(0, 0, 0), (0, 7, 0)]]] ! 0 ! 0 ! 0 = (255, 255, 255)"
proof -
  have "replace_black_with_white_color [[[(0, 0, 0), (0, 7, 0)]]] ! 0 ! 0 ! 1
      = [[[(0, 0, 0), (0, 7, 0 :: int)]]] ! 0 ! 0 ! 1"
    using replace_black_with_white_color_frame [of 0 "[[[(0, 0, 0), (0, 7, 0)]]]" 0 1]
    by simp
  moreover have "replace_black_with_white_color [[[(0, 0, 0), (0, 7, 0)]]] ! 0 ! 0 ! 0
      = (255, 255, 255)"
    by (simp add: replace_black_with_white_color_def map_batch_def map_image_def
        replace_black_pixel_def)
  ultimately show ?thesis by simp
qed

section \<open>Properties of colors\_to\_dimensions\<close>







section \<open>Properties of combine\_image\<close>




















section \<open>Properties of the example schema\<close>

lemma parse_optional:
  "parse_dense_feature ex key \<lparr>shape = [], dtype = DT_STRING, default_value = Some ['''']\<rparr> =
     (if optional_string ex key then Inr (BytesList [string_or_default ex key])
      else Inl (case map_of ex key of
                  Some (BytesList vs) \<Rightarrow> WrongNumberOfValues key
                | _ \<Rightarrow> DataTypesDontMatch key))"
  by (auto simp: parse_dense_feature_def optional_string_def string_or_default_def
      feature_matches_def feature_size_def
      split: option.splits feature.splits list.splits)

lemma parse_required:
  "parse_dense_feature ex key \<lparr>shape = [], dtype = DT_STRING, default_value = None\<rparr> =
     (if required_string ex key then Inr (BytesList [string_or_default ex key])
      else Inl (case map_of ex key of
                  None \<Rightarrow> RequiredFeatureMissing key
                | Some KindNotSet \<Rightarrow> RequiredFeatureMissing key
                | Some (BytesList vs) \<Rightarrow> WrongNumberOfValues key
                | _ \<Rightarrow> DataTypesDontMatch key))"
  by (auto simp: parse_dense_feature_def required_string_def string_or_default_def
      feature_matches_def feature_size_def
      split: option.splits feature.splits list.splits)

lemma parse_feature_map:
  "parse_single_example ex feature_map =
     (if conforms_to_schema ex
      then Inr [(''input_uri'', BytesList [string_or_default ex ''input_uri'']),
                (''annotation_uri'', BytesList [string_or_default ex ''annotation_uri'']),
                (''input_image'', BytesList [string_or_default ex ''input_image'']),
                (''annotation_image'', BytesList [string_or_default ex ''annotation_image''])]
      else Inl (case parse_single_example ex feature_map of Inl e \<Rightarrow> e))"
  by (simp add: feature_map_def parse_optional parse_required conforms_to_schema_def)

text \<open>
  C6. The schema has the four fields \<^verbatim>\<open>input_uri\<close>, \<^verbatim>\<open>annotation_uri\<close>,
  \<^verbatim>\<open>input_image\<close> and \<^verbatim>\<open>annotation_image\<close>, all scalar strings; the two URIs
  default to the empty string and the two images have no default. An example that
  conforms is parsed to its four values, an absent URI reading as the empty string;
  for an example that does not conform (a required image is missing, say) parsing is
  an error, and the error is the result of the parsing step of \<^verbatim>\<open>build_graph\<close>.
\<close>

theorem build_graph_parse_schema:
  "map fst feature_map = [''input_uri'', ''annotation_uri'', ''input_image'', ''annotation_image'']
   \<and> map (\<lambda>kc. default_value (snd kc)) feature_map = [Some [''''], Some [''''], None, None]
   \<and> map (\<lambda>kc. dtype (snd kc)) feature_map = [DT_STRING, DT_STRING, DT_STRING, DT_STRING]
   \<and> map (\<lambda>kc. shape (snd kc)) feature_map = [[], [], [], []]
   \<and> (conforms_to_schema ex \<longrightarrow>
        build_graph_parse ex =
          Inr \<lparr>input_uri = string_or_default ex ''input_uri'',
               annotation_uri = string_or_default ex ''annotation_uri'',
               raw_input_image = string_or_default ex ''input_image'',
               raw_annotation_image = string_or_default ex ''annotation_image''\<rparr>)
   \<and> (\<not> conforms_to_schema ex \<longrightarrow> (\<exists>e. build_graph_parse ex = Inl e))"
proof -
  have a: "build_graph_parse ex =
          Inr \<lparr>input_uri = string_or_default ex ''input_uri'',
               annotation_uri = string_or_default ex ''annotation_uri'',
               raw_input_image = string_or_default ex ''input_image'',
               raw_annotation_image = string_or_default ex ''annotation_image''\<rparr>"
    if "conforms_to_schema ex"
    using that by (simp add: build_graph_parse_def parse_feature_map squeeze_feature_def)
  have b: "\<exists>e. build_graph_parse ex = Inl e" if "\<not> conforms_to_schema ex"
  proof -
    have "parse_single_example ex feature_map =
        Inl (case parse_single_example ex feature_map of Inl e \<Rightarrow> e)"
      using that by (subst parse_feature_map) simp
    then show ?thesis by (simp add: build_graph_parse_def split: sum.splits)
  qed
  show ?thesis using a b by (simp add: feature_map_def)
qed

theorem build_graph_parse_schema_witness:
  "build_graph_parse
     [(''input_image'', BytesList [''PNG1'']), (''annotation_image'', BytesList [''PNG2''])]
     = Inr \<lparr>input_uri = [], annotation_uri = [],
            raw_input_image = ''PNG1'', raw_annotation_image = ''PNG2''\<rparr>
   \<and> build_graph_parse
       [(''input_uri'', BytesList [''a.png'']), (''input_image'', BytesList [''PNG1''])]
     = Inl (RequiredFeatureMissing ''annotation_image'')"
proof -
  let ?good = "[(''input_image'', BytesList [''PNG1'']),
                (''annotation_image'', BytesList [''PNG2''])]"
  let ?bad = "[(''input_uri'', BytesList [''a.png'']), (''input_image'', BytesList [''PNG1''])]"
  have g: "conforms_to_schema ?good" by code_simp
  have b: "\<not> conforms_to_schema ?bad" by code_simp
  have sg: "string_or_default ?good ''input_uri'' = []"
    "string_or_default ?good ''annotation_uri'' = []"
    "string_or_default ?good ''input_image'' = ''PNG1''"
    "string_or_default ?good ''annotation_image'' = ''PNG2''"
    by (simp_all add: string_or_default_def)
  have good: "build_graph_parse ?good
     = Inr \<lparr>input_uri = [], annotation_uri = [],
            raw_input_image = ''PNG1'', raw_annotation_image = ''PNG2''\<rparr>"
    using build_graph_parse_schema [of ?good] g sg by simp
  obtain e where e: "build_graph_parse ?bad = Inl e"
    using build_graph_parse_schema [of ?bad] b by blast
  have "build_graph_parse ?bad = Inl (RequiredFeatureMissing ''annotation_image'')"
    by code_simp
  with good e show ?thesis by simp
qed

section \<open>Properties of Model.\_\_init\_\_\<close>

lemma lookup_all_present:
  assumes "set ks \<subseteq> fst ` set d"
  shows "lookup_all d ks = Inr (map (\<lambda>k. the (map_of d k)) ks)"
  using assms
proof (induction ks)
  case Nil
  then show ?case by simp
next
  case (Cons k ks)
  then have "k \<in> fst ` set d" by simp
  then obtain v where "map_of d k = Some v"
    by (metis map_of_eq_None_iff not_Some_eq)
  with Cons show ?case by simp
qed

lemma sort_keys_order_free:
  fixes xs ys :: "('k::linorder) list"
  assumes "distinct xs" and "distinct ys" and "set xs = set ys"
  shows "sort xs = sort ys"
proof -
  have "sort xs = sorted_list_of_set (set xs)"
    using assms(1) by (simp add: sorted_list_of_set_sort_remdups distinct_remdups_id)
  also have "\<dots> = sorted_list_of_set (set ys)" using assms(3) by simp
  also have "\<dots> = sort ys"
    using assms(2) by (simp add: sorted_list_of_set_sort_remdups distinct_remdups_id)
  finally show ?thesis .
qed

lemma Model_init_Some:
  "Model_init to_int (Some \<lparr>parsed_color_map = cm, color_labels = items\<rparr>) =
     (case color_label_map_from to_int items Map.empty of
        Inl e \<Rightarrow> Inl e
      | Inr lm \<Rightarrow>
          Inr \<lparr>image_width = 256, image_height = 256, color_map = Some cm,
               dimension_colors = Some (map (\<lambda>k. the (map_of cm k)) (sort (map fst cm))),
               dimension_labels = Some (map lm (sort (map fst cm)))\<rparr>)"
proof -
  have "set (sort (map fst cm)) \<subseteq> fst ` set cm" by simp
  then have "lookup_all cm (sort (map fst cm)) =
      Inr (map (\<lambda>k. the (map_of cm k)) (sort (map fst cm)))"
    by (rule lookup_all_present)
  then show ?thesis
    by (simp add: Model_init_def bind_err_def Let_def split: sum.splits)
qed


text \<open>
  C8. The dimension order does not depend on the order in which the colour map dict
  yields its items: two constructions from the same file contents (the same items,
  whatever their iteration order) either raise the same exception or give the same
  \<^verbatim>\<open>dimension_colors\<close> and \<^verbatim>\<open>dimension_labels\<close>. Dimension \<open>i\<close>, counted from 0,
  belongs to the \<open>i\<close>-th key in strictly increasing order of the RGB tuples: its
  colour is the value the colour map has for that key and its label the label of that
  key, if any.
\<close>

theorem Model_init_dimension_order:
  assumes "distinct (map fst cm)" and "distinct (map fst cm')" and "set cm = set cm'"
  shows "(\<exists>e. Model_init to_int (Some \<lparr>parsed_color_map = cm, color_labels = items\<rparr>) = Inl e
            \<and> Model_init to_int (Some \<lparr>parsed_color_map = cm', color_labels = items\<rparr>) = Inl e)
    \<or> (\<exists>m m' keys dc dl lm.
          Model_init to_int (Some \<lparr>parsed_color_map = cm, color_labels = items\<rparr>) = Inr m
        \<and> Model_init to_int (Some \<lparr>parsed_color_map = cm', color_labels = items\<rparr>) = Inr m'
        \<and> dimension_colors m' = dimension_colors m
        \<and> dimension_labels m' = dimension_labels m
        \<and> dimension_colors m = Some dc \<and> dimension_labels m = Some dl
        \<and> color_label_map_from to_int items Map.empty = Inr lm
        \<and> sorted_wrt (<) keys \<and> set keys = fst ` set cm
        \<and> length keys = length cm \<and> length dc = length cm \<and> length dl = length cm
        \<and> (\<forall>i<length cm. map_of cm (keys ! i) = Some (dc ! i) \<and> dl ! i = lm (keys ! i)))"
proof (cases "color_label_map_from to_int items Map.empty")
  case (Inl e)
  then show ?thesis by (simp add: Model_init_Some)
next
  case (Inr lm)
  let ?keys = "sort (map fst cm)"
  let ?dc = "map (\<lambda>k. the (map_of cm k)) ?keys"
  let ?dl = "map lm ?keys"
  have keys: "sort (map fst cm') = ?keys"
    using assms by (intro sort_keys_order_free) (auto simp: image_def)
  have mo: "map_of cm' = map_of cm"
    using assms by (simp add: map_of_inject_set)
  have sorted: "sorted_wrt (<) ?keys"
    using assms(1) by (simp add: strict_sorted_iff)
  have nth: "map_of cm (?keys ! i) = Some (?dc ! i) \<and> ?dl ! i = lm (?keys ! i)"
    if "i < length cm" for i
  proof -
    have "?keys ! i \<in> set ?keys" using that by (intro nth_mem) simp
    then have "?keys ! i \<in> fst ` set cm" by simp
    then obtain v where "map_of cm (?keys ! i) = Some v"
      by (metis map_of_eq_None_iff not_Some_eq)
    then show ?thesis using that by simp
  qed
  have "\<exists>m m'. Model_init to_int (Some \<lparr>parsed_color_map = cm, color_labels = items\<rparr>) = Inr m
        \<and> Model_init to_int (Some \<lparr>parsed_color_map = cm', color_labels = items\<rparr>) = Inr m'
        \<and> dimension_colors m' = dimension_colors m
        \<and> dimension_labels m' = dimension_labels m
        \<and> dimension_colors m = Some ?dc \<and> dimension_labels m = Some ?dl"
    by (simp add: Model_init_Some Inr keys mo)
  then show ?thesis
    using Inr sorted nth by (intro disjI2) (force simp del: map_map)
qed


theorem Model_init_dimension_order_witness:
  "map_sum id dimension_colors
     (Model_init decimal_int
        (Some \<lparr>parsed_color_map =
                  [((255, 255, 255), (255, 255, 255)), ((0, 0, 0), (0, 0, 0)),
                   ((128, 128, 128), (0, 0, 255))],
                color_labels = [(''255'', ''text''), (''0'', ''background'')]\<rparr>))
     = Inr (Some [(0, 0, 0), (0, 0, 255), (255, 255, 255)])
   \<and> map_sum id dimension_labels
     (Model_init decimal_int
        (Some \<lparr>parsed_color_map =
                  [((128, 128, 128), (0, 0, 255)), ((0, 0, 0), (0, 0, 0)),
                   ((255, 255, 255), (255, 255, 255))],
                color_labels = [(''255'', ''text''), (''0'', ''background'')]\<rparr>))
     = Inr (Some [Some ''background'', None, Some ''text''])"
proof -
  let ?cm = "[((255, 255, 255), (255, 255, 255)), ((0, 0, 0), (0, 0, 0)),
              ((128, 128, 128), (0, 0, 255))] :: (rgb \<times> rgb) list"
  let ?cm' = "[((128, 128, 128), (0, 0, 255)), ((0, 0, 0), (0, 0, 0)),
               ((255, 255, 255), (255, 255, 255))] :: (rgb \<times> rgb) list"
  let ?items = "[(''255'', ''text''), (''0'', ''background'')]"
  have h1: "distinct (map fst ?cm)" by simp
  have h2: "distinct (map fst ?cm')" by simp
  have h3: "set ?cm = set ?cm'" by auto
  have c: "map_sum id dimension_colors
      (Model_init decimal_int (Some \<lparr>parsed_color_map = ?cm, color_labels = ?items\<rparr>))
      = Inr (Some [(0, 0, 0), (0, 0, 255), (255, 255, 255)])"
    by code_simp
  have l: "map_sum id dimension_labels
      (Model_init decimal_int (Some \<lparr>parsed_color_map = ?cm, color_labels = ?items\<rparr>))
      = Inr (Some [Some ''background'', None, Some ''text''])"
    by code_simp
  from Model_init_dimension_order [OF h1 h2 h3, of decimal_int ?items]
  have "map_sum id dimension_labels
      (Model_init decimal_int (Some \<lparr>parsed_color_map = ?cm', color_labels = ?items\<rparr>))
    = map_sum id dimension_labels
      (Model_init decimal_int (Some \<lparr>parsed_color_map = ?cm, color_labels = ?items\<rparr>))"
    by auto
  with c l show ?thesis by simp
qed

section \<open>Properties of add\_model\_summary\_images\<close>

lemma bind_err_Inr:
  "bind_err r f = Inr y \<longleftrightarrow> (\<exists>x. r = Inr x \<and> f x = Inr y)"
  by (cases r) (simp_all add: bind_err_def)

lemma add_summary_image_Inr:
  assumes "add_summary_image t name img = Inr t'"
  shows "\<exists>d. image_tensors t = Some d
    \<and> t' = t\<lparr>image_tensors := Some (d(name \<mapsto> img)),
              summary_ops := summary_ops t @ [(name, img)]\<rparr>"
  using assms by (auto simp: add_summary_image_def split: option.splits)

lemma add_label_images_Inr:
  assumes "add_label_images t prefix i xs = Inr t'"
  shows "pred t' = pred t
    \<and> separate_channel_annotation_tensor t' = separate_channel_annotation_tensor t
    \<and> summaries t' = summaries t
    \<and> (\<forall>d. image_tensors t = Some d \<longrightarrow>
         (\<exists>d'. image_tensors t' = Some d'
            \<and> (\<forall>n. take (length prefix) n \<noteq> prefix \<longrightarrow> d' n = d n)))"
  using assms
proof (induction xs arbitrary: t i)
  case Nil
  then show ?case by simp
next
  case (Cons x xs)
  obtain batch_image dimension_label where x: "x = (batch_image, dimension_label)"
    by (cases x)
  let ?name = "prefix @ label_suffix i dimension_label"
  from Cons.prems obtain t1 where
    t1: "add_summary_image t ?name (convert_image (F32 batch_image)) = Inr t1"
    and rest: "add_label_images t1 prefix (Suc i) xs = Inr t'"
    by (auto simp: x bind_err_Inr add_simple_summary_image_def)
  from add_summary_image_Inr [OF t1] obtain d0 where
    d0: "image_tensors t = Some d0"
    and t1_eq: "t1 = t\<lparr>image_tensors := Some (d0(?name \<mapsto> convert_image (F32 batch_image))),
              summary_ops := summary_ops t @ [(?name, convert_image (F32 batch_image))]\<rparr>"
    by blast
  note ih = Cons.IH [OF rest]
  have f: "pred t' = pred t"
    "separate_channel_annotation_tensor t' = separate_channel_annotation_tensor t"
    "summaries t' = summaries t"
    using ih t1_eq by simp_all
  from ih t1_eq obtain d' where d': "image_tensors t' = Some d'"
    and keep: "\<forall>n. take (length prefix) n \<noteq> prefix \<longrightarrow>
        d' n = (d0(?name \<mapsto> convert_image (F32 batch_image))) n"
    by auto
  have "d' n = d0 n" if "take (length prefix) n \<noteq> prefix" for n
  proof -
    have "n \<noteq> ?name" using that by auto
    then show ?thesis using keep that by simp
  qed
  then show ?case using f d0 d' by simp
qed


lemma add_summary_image_fields:
  assumes "add_summary_image t name img = Inr t'"
  shows "pred t' = pred t"
    and "separate_channel_annotation_tensor t' = separate_channel_annotation_tensor t"
    and "summaries t' = summaries t"
    and "\<exists>d. image_tensors t = Some d \<and> image_tensors t' = Some (d(name \<mapsto> img))"
  using add_summary_image_Inr [OF assms] by auto

lemma set_output_image_fields:
  assumes "set_output_image t img = Inr t'"
  shows "pred t' = pred t" and "image_tensors t' = image_tensors t"
  using assms by (auto simp: set_output_image_def split: option.splits)

lemma combine_image_False:
  assumes "combine_image batch_images False = Inr c"
  shows "\<exists>s. reduce_add batch_images = Inr s \<and> c = map_batch convert_pixel s"
  using assms by (auto simp: combine_image_def split: sum.splits)

text \<open>
  C7. When \<^verbatim>\<open>add_model_summary_images\<close> succeeds with a non-empty list of dimension
  colours, the image named \<^verbatim>\<open>targets_combined\<close> is \<^verbatim>\<open>combine_image\<close> of the
  weighted target images and the image named \<^verbatim>\<open>outputs_combined\<close> is
  \<^verbatim>\<open>combine_image\<close> of the weighted prediction images, both with
  \<^verbatim>\<open>replace_black_with_white\<close> false: each composite is the converted sum itself,
  so a pixel that is (0, 0, 0) in it stays (0, 0, 0).
\<close>

theorem add_model_summary_images_combined:
  assumes ok: "add_model_summary_images tensors (Some colors) labels = Inr tensors'"
    and ne: "colors \<noteq> []"
  shows "\<exists>d targets outputs tc oc st so.
      image_tensors tensors' = Some d
    \<and> batch_dimensions_to_colors_list (separate_channel_annotation_tensor tensors) colors
        = Inr targets
    \<and> batch_dimensions_to_colors_list (pred tensors) colors = Inr outputs
    \<and> d ''targets_combined'' = Some (U8 tc) \<and> combine_image targets False = Inr tc
    \<and> d ''outputs_combined'' = Some (U8 oc) \<and> combine_image outputs False = Inr oc
    \<and> reduce_add targets = Inr st \<and> tc = map_batch convert_pixel st
    \<and> reduce_add outputs = Inr so \<and> oc = map_batch convert_pixel so"
proof -
  obtain c cs where colors: "colors = c # cs" using ne by (cases colors) auto
  from ok obtain t1 t2 where
    t1: "add_summary_image (tensors\<lparr>summaries := Some Map.empty\<rparr>) ''input''
           (convert_image (F32 (image_tensor tensors))) = Inr t1"
    and t2: "add_summary_image t1 ''target'' (convert_image (annotation_tensor t1)) = Inr t2"
    and dim: "add_dimension_summary_images t2 colors labels = Inr tensors'"
    by (auto simp: add_model_summary_images_def colors bind_err_Inr
        add_simple_summary_image_def)
  have p2: "pred t2 = pred tensors"
    and s2: "separate_channel_annotation_tensor t2 = separate_channel_annotation_tensor tensors"
    using add_summary_image_fields(1,2) [OF t1] add_summary_image_fields(1,2) [OF t2]
    by simp_all
  from dim obtain targets l1 t3 tc t4 outputs l2 t5 oc t6 where
    targets: "batch_dimensions_to_colors_list (separate_channel_annotation_tensor t2) colors
        = Inr targets"
    and l1: "zip_labels targets labels = Inr l1"
    and t3: "add_label_images t2 ''targets'' 0 l1 = Inr t3"
    and tc: "combine_image targets False = Inr tc"
    and t4: "add_summary_image t3 ''targets_combined'' (U8 tc) = Inr t4"
    and outputs: "batch_dimensions_to_colors_list (pred t4) colors = Inr outputs"
    and l2: "zip_labels outputs labels = Inr l2"
    and t5: "add_label_images t4 ''outputs'' 0 l2 = Inr t5"
    and oc: "combine_image outputs False = Inr oc"
    and t6: "set_output_image t5 (U8 oc) = Inr t6"
    and last: "add_summary_image t6 ''outputs_combined'' (U8 oc) = Inr tensors'"
    unfolding add_dimension_summary_images_def bind_err_Inr by blast
  have p4: "pred t4 = pred tensors"
    using add_label_images_Inr [OF t3] add_summary_image_fields(1) [OF t4] p2 by simp
  from add_summary_image_fields(4) [OF t4] obtain d3 where
    d4: "image_tensors t4 = Some (d3(''targets_combined'' \<mapsto> U8 tc))"
    by blast
  from add_label_images_Inr [OF t5] d4 obtain d5 where
    d5: "image_tensors t5 = Some d5"
    and keep: "\<forall>n. take (length ''outputs'') n \<noteq> ''outputs'' \<longrightarrow>
        d5 n = (d3(''targets_combined'' \<mapsto> U8 tc)) n"
    by blast
  have d5t: "d5 ''targets_combined'' = Some (U8 tc)"
    using keep by simp
  have d6: "image_tensors t6 = Some d5"
    using set_output_image_fields(2) [OF t6] d5 by simp
  from add_summary_image_fields(4) [OF last] d6
  have d: "image_tensors tensors' = Some (d5(''outputs_combined'' \<mapsto> U8 oc))"
    by simp
  from combine_image_False [OF tc] obtain st where
    st: "reduce_add targets = Inr st" "tc = map_batch convert_pixel st" by blast
  from combine_image_False [OF oc] obtain so where
    so: "reduce_add outputs = Inr so" "oc = map_batch convert_pixel so" by blast
  show ?thesis
    using d d5t targets outputs tc oc st so p4 s2 by simp
qed


theorem add_model_summary_images_combined_witness:
  "\<exists>t' d.
     add_model_summary_images
       \<lparr>image_tensor = [[[(0, 0, 0), (1, 1, 1)]]],
        annotation_tensor = U8 [[[(255, 0, 0), (7, 7, 7)]]],
        separate_channel_annotation_tensor = [[[[1, 0], [0, 0]]]],
        pred = [[[[0, 0], [0, 1]]]],
        summaries = None, image_tensors = Some Map.empty, summary_ops = []\<rparr>
       (Some [(255, 0, 0), (0, 255, 0)]) (Some [Some ''red'', None]) = Inr t'
     \<and> image_tensors t' = Some d
     \<and> d ''targets_combined'' = Some (U8 [[[(255, 0, 0), (0, 0, 0)]]])
     \<and> d ''outputs_combined'' = Some (U8 [[[(0, 0, 0), (0, 255, 0)]]])"
proof -
  let ?t = "\<lparr>image_tensor = [[[(0, 0, 0), (1, 1, 1)]]],
        annotation_tensor = U8 [[[(255, 0, 0), (7, 7, 7)]]],
        separate_channel_annotation_tensor = [[[[1, 0], [0, 0]]]],
        pred = [[[[0, 0], [0, 1]]]],
        summaries = None, image_tensors = Some Map.empty, summary_ops = []\<rparr>"
  let ?colors = "[(255, 0, 0), (0, 255, 0)] :: rgb list"
  let ?labels = "Some [Some ''red'', None]"
  have "\<not> isl (add_model_summary_images ?t (Some ?colors) ?labels)"
    by code_simp
  then obtain t' where ok: "add_model_summary_images ?t (Some ?colors) ?labels = Inr t'"
    by (cases "add_model_summary_images ?t (Some ?colors) ?labels") auto
  have ne: "?colors \<noteq> []" by simp
  from add_model_summary_images_combined [OF ok ne] obtain d targets outputs tc oc where
    d: "image_tensors t' = Some d"
    and targets: "batch_dimensions_to_colors_list
        (separate_channel_annotation_tensor ?t) ?colors = Inr targets"
    and outputs: "batch_dimensions_to_colors_list (pred ?t) ?colors = Inr outputs"
    and tc: "d ''targets_combined'' = Some (U8 tc)" "combine_image targets False = Inr tc"
    and oc: "d ''outputs_combined'' = Some (U8 oc)" "combine_image outputs False = Inr oc"
    by blast
  have "batch_dimensions_to_colors_list [[[[1, 0], [0, 0]]]] ?colors
      = Inr [[[[(1, 0, 0), (0, 0, 0)]]], [[[(0, 0, 0), (0, 0, 0)]]]]"
    by code_simp
  with targets have tv: "targets = [[[[(1, 0, 0), (0, 0, 0)]]], [[[(0, 0, 0), (0, 0, 0)]]]]"
    by simp
  have "batch_dimensions_to_colors_list [[[[0, 0], [0, 1]]]] ?colors
      = Inr [[[[(0, 0, 0), (0, 0, 0)]]], [[[(0, 0, 0), (0, 1, 0)]]]]"
    by code_simp
  with outputs have ov: "outputs = [[[[(0, 0, 0), (0, 0, 0)]]], [[[(0, 0, 0), (0, 1, 0)]]]]"
    by simp
  have "combine_image [[[[(1, 0, 0), (0, 0, 0)]]], [[[(0, 0, 0), (0, 0, 0)]]]] False
      = Inr [[[(255, 0, 0), (0, 0, 0)]]]"
    by code_simp
  with tc(2) tv have tcv: "tc = [[[(255, 0, 0), (0, 0, 0)]]]" by simp
  have "combine_image [[[[(0, 0, 0), (0, 0, 0)]]], [[[(0, 0, 0), (0, 1, 0)]]]] False
      = Inr [[[(0, 0, 0), (0, 255, 0)]]]"
    by code_simp
  with oc(2) ov have ocv: "oc = [[[(0, 0, 0), (0, 255, 0)]]]" by simp
  show ?thesis using ok d tc(1) oc(1) tcv ocv by blast
qed

end
